theory Spec2Isabelle
  imports Complex_Main "HOL-Library.Sublist"
begin

section \<open>Data model (types.ts)\<close>

text \<open>
  The \<open>Category\<close> enum; its members are strings at run time, given by
  \<open>category_value\<close>.
\<close>

datatype Category = ELECTRONICS | FURNITURE | CLOTHING | OFFICE | OTHER

fun category_value :: "Category \<Rightarrow> string" where
  "category_value ELECTRONICS = ''Electronics''"
| "category_value FURNITURE = ''Furniture''"
| "category_value CLOTHING = ''Clothing''"
| "category_value OFFICE = ''Office Supplies''"
| "category_value OTHER = ''Other''"

text \<open>
  The \<open>Product\<close> interface. The field \<open>id\<close> is called \<open>product_id\<close> here
  (\<open>id\<close> is the identity function of HOL). The \<open>number\<close> fields hold finite doubles, and a
  finite double is the rational it denotes, so a field is a \<open>rat\<close>; comparing two of
  them is comparing the rationals. The arithmetic of the runtime rounds and overflows:
  where the code adds or multiplies (\<open>stats\<close>) it is a parameter, not the arithmetic of
  \<open>rat\<close>. The optional \<open>history\<close> is an \<open>option\<close>.
\<close>

record Product =
  product_id :: string
  name :: string
  sku :: string
  category :: Category
  price :: rat
  quantity :: rat
  description :: string
  lastUpdated :: string
  history :: "rat list option"

text \<open>
  \<open>DashboardStats\<close>. The three counts are lengths; \<open>totalValue\<close> is a number the
  runtime computes, of the type \<open>'v\<close> of its number values (finite or not).
\<close>

record 'v DashboardStats =
  totalProducts :: nat
  totalValue :: 'v
  lowStockItems :: nat
  outOfStockItems :: nat

text \<open>
  The double arithmetic of the runtime that \<open>stats\<close> uses: the number \<open>0\<close>, the sum of
  two numbers and the product of two finite numbers. Nothing is assumed of it: the sum
  need not be associative and the product need not be finite.
\<close>

record 'v Arithmetic =
  number_zero :: 'v
  number_add :: "'v \<Rightarrow> 'v \<Rightarrow> 'v"
  number_mul :: "rat \<Rightarrow> rat \<Rightarrow> 'v"

section \<open>App.tsx\<close>

text \<open>
  The mock catalog. Each record reads the clock on its own
  (\<open>new Date().toISOString()\<close>), so the five readings are five parameters. The
  literals \<open>349.99\<close> and \<open>89.99\<close> denote the doubles nearest to them, written here as
  the fractions they are; \<open>129.50\<close>, \<open>299.00\<close> and \<open>45.00\<close> are doubles.
\<close>

definition INITIAL_PRODUCTS ::
  "string \<Rightarrow> string \<Rightarrow> string \<Rightarrow> string \<Rightarrow> string \<Rightarrow> Product list" where
  "INITIAL_PRODUCTS t1 t2 t3 t4 t5 =
    [ \<lparr> product_id = ''1'', name = ''Ergo Chair Ultra'', sku = ''FUR-001'',
        category = FURNITURE, price = 1539272298421289 / 4398046511104, quantity = 15,
        description = ''High-end ergonomic office chair with lumbar support.'',
        lastUpdated = t1, history = Some [12, 15, 13, 18, 15, 20, 15] \<rparr>,
      \<lparr> product_id = ''2'', name = ''Wireless Mech Keyboard'', sku = ''ELE-045'',
        category = ELECTRONICS, price = 259 / 2, quantity = 4,
        description = ''Mechanical keyboard with RGB and brown switches.'',
        lastUpdated = t2, history = Some [8, 6, 5, 7, 5, 4, 4] \<rparr>,
      \<lparr> product_id = ''3'', name = ''Standing Desk Frame'', sku = ''FUR-022'',
        category = FURNITURE, price = 299, quantity = 8,
        description = ''Dual motor electric standing desk frame.'',
        lastUpdated = t3, history = Some [5, 8, 12, 10, 9, 8, 8] \<rparr>,
      \<lparr> product_id = ''4'', name = ''USB-C Docking Station'', sku = ''ELE-102'',
        category = ELECTRONICS, price = 6332483288547983 / 70368744177664, quantity = 42,
        description = ''12-in-1 docking station for laptops.'',
        lastUpdated = t4, history = Some [30, 35, 32, 40, 45, 42, 42] \<rparr>,
      \<lparr> product_id = ''5'', name = ''Cotton Hoodie'', sku = ''CLO-552'',
        category = CLOTHING, price = 45, quantity = 120,
        description = ''Premium heavyweight cotton hoodie.'',
        lastUpdated = t5, history = Some [150, 140, 135, 130, 125, 120, 120] \<rparr> ]"

text \<open>
  The memoised \<open>stats\<close> of \<open>App\<close>, as a function of the \<open>products\<close> state.
  \<open>reduce\<close> with an initial value is a left fold; its \<open>+\<close> and \<open>*\<close> are those of the
  runtime, \<open>ar\<close>.
\<close>

definition stats :: "'v Arithmetic \<Rightarrow> Product list \<Rightarrow> 'v DashboardStats" where
  "stats ar products =
    \<lparr> totalProducts = length products,
      totalValue =
        foldl (\<lambda>acc p. number_add ar acc (number_mul ar (price p) (quantity p)))
          (number_zero ar) products,
      lowStockItems = length (filter (\<lambda>p. quantity p < 10) products),
      outOfStockItems = length (filter (\<lambda>p. quantity p = 0) products) \<rparr>"

text \<open>
  The handlers of \<open>App\<close> that write the catalog. Each is the state update it passes to
  \<open>setProducts\<close>; the answer of \<open>window.confirm\<close> is the argument \<open>confirmed\<close>.
  \<open>ids.includes(p.id)\<close> is membership in the list \<open>ids\<close>.
\<close>

definition handleDeleteProduct :: "bool \<Rightarrow> string \<Rightarrow> Product list \<Rightarrow> Product list" where
  "handleDeleteProduct confirmed i prev =
    (if confirmed then filter (\<lambda>p. product_id p \<noteq> i) prev else prev)"

definition handleBatchDelete :: "bool \<Rightarrow> string list \<Rightarrow> Product list \<Rightarrow> Product list" where
  "handleBatchDelete confirmed ids prev =
    (if confirmed then filter (\<lambda>p. \<not> (product_id p \<in> set ids)) prev else prev)"

definition handleBatchLowStock :: "string list \<Rightarrow> Product list \<Rightarrow> Product list" where
  "handleBatchLowStock ids prev =
    map (\<lambda>p. if product_id p \<in> set ids then p\<lparr>quantity := 5\<rparr> else p) prev"

section \<open>InventoryTable (components)\<close>

subsection \<open>Built-ins of the JavaScript runtime\<close>

text \<open>
  \<open>String.prototype.toLowerCase\<close> follows the case mapping of Unicode, which is a table
  of the runtime: what it makes of a non-empty string is the parameter \<open>lower\<close>. The
  empty string has no character to map and stays empty.
\<close>

definition toLowerCase :: "(string \<Rightarrow> string) \<Rightarrow> string \<Rightarrow> string" where
  "toLowerCase lower s = (if s = [] then [] else lower s)"

text \<open>
  \<open>s.includes(t)\<close>: \<open>t\<close> occurs in \<open>s\<close> at some position (\<open>includes\<close> is a
  keyword of Isabelle, hence the suffix).
\<close>

fun includes_str :: "string \<Rightarrow> string \<Rightarrow> bool" where
  "includes_str [] t = (t = [])"
| "includes_str (c # s) t = (prefix t (c # s) \<or> includes_str s t)"

text \<open>
  A \<open>Set<string>\<close> keeps its members in insertion order without repetition: a list.
  \<open>Array.from\<close> of the set is that list.
\<close>

type_synonym js_set = "string list"

definition set_has :: "js_set \<Rightarrow> string \<Rightarrow> bool" where
  "set_has s x = (x \<in> set s)"

definition set_add :: "js_set \<Rightarrow> string \<Rightarrow> js_set" where
  "set_add s x = (if x \<in> set s then s else s @ [x])"

definition set_delete :: "js_set \<Rightarrow> string \<Rightarrow> js_set" where
  "set_delete s x = filter (\<lambda>y. y \<noteq> x) s"

subsection \<open>Component state and the filtered view\<close>

record TableState =
  searchTerm :: string
  categoryFilter :: string
  stockFilter :: string
  selectedIds :: js_set
  isBatchMenuOpen :: bool

definition initialTableState :: TableState where
  "initialTableState =
    \<lparr> searchTerm = '''', categoryFilter = ''All'', stockFilter = ''All'',
      selectedIds = [], isBatchMenuOpen = False \<rparr>"

definition matchesSearch :: "(string \<Rightarrow> string) \<Rightarrow> TableState \<Rightarrow> Product \<Rightarrow> bool" where
  "matchesSearch lower st product =
    (includes_str (toLowerCase lower (name product)) (toLowerCase lower (searchTerm st)) \<or>
     includes_str (toLowerCase lower (sku product)) (toLowerCase lower (searchTerm st)))"

definition matchesCategory :: "TableState \<Rightarrow> Product \<Rightarrow> bool" where
  "matchesCategory st product =
    (categoryFilter st = ''All'' \<or> category_value (category product) = categoryFilter st)"

definition matchesStock :: "TableState \<Rightarrow> Product \<Rightarrow> bool" where
  "matchesStock st product =
    (if stockFilter st = ''In Stock'' then quantity product \<ge> 10
     else if stockFilter st = ''Low Stock'' then quantity product > 0 \<and> quantity product < 10
     else if stockFilter st = ''Out of Stock'' then quantity product = 0
     else True)"

definition filteredProducts ::
  "(string \<Rightarrow> string) \<Rightarrow> TableState \<Rightarrow> Product list \<Rightarrow> Product list" where
  "filteredProducts lower st products =
    filter (\<lambda>product. matchesSearch lower st product \<and> matchesCategory st product \<and>
                       matchesStock st product) products"

text \<open>
  \<open>handleSelectAll\<close>, \<open>toggleSelection\<close> and \<open>clearSelection\<close>: each reads the state of
  the current render and writes the selection. \<open>new Set(selectedIds)\<close> is a copy,
  \<open>forEach\<close> is a left fold over the filtered view.
\<close>

definition handleSelectAll ::
  "(string \<Rightarrow> string) \<Rightarrow> Product list \<Rightarrow> TableState \<Rightarrow> TableState" where
  "handleSelectAll lower products st =
    (let fp = filteredProducts lower st products;
         allFilteredSelected =
           (length fp > 0 \<and> list_all (\<lambda>p. set_has (selectedIds st) (product_id p)) fp);
         newSelected = selectedIds st
     in st\<lparr>selectedIds :=
          (if allFilteredSelected
           then foldl (\<lambda>s p. set_delete s (product_id p)) newSelected fp
           else foldl (\<lambda>s p. set_add s (product_id p)) newSelected fp)\<rparr>)"

definition toggleSelection :: "string \<Rightarrow> TableState \<Rightarrow> TableState" where
  "toggleSelection i st =
    (let newSelected = selectedIds st
     in st\<lparr>selectedIds :=
          (if set_has newSelected i then set_delete newSelected i else set_add newSelected i)\<rparr>)"

definition clearSelection :: "TableState \<Rightarrow> TableState" where
  "clearSelection st = st\<lparr>selectedIds := [], isBatchMenuOpen := False\<rparr>"

text \<open>
  The two batch buttons. \<open>App\<close> passes \<open>handleBatchDelete\<close> as \<open>onBatchDelete\<close> and
  \<open>handleBatchLowStock\<close> as \<open>onBatchLowStock\<close>, so a click acts on the catalog of
  \<open>App\<close> and on the state of the table.
\<close>

definition handleBatchDeleteClick ::
  "bool \<Rightarrow> Product list \<Rightarrow> TableState \<Rightarrow> Product list \<times> TableState" where
  "handleBatchDeleteClick confirmed products st =
    (handleBatchDelete confirmed (selectedIds st) products, clearSelection st)"

definition handleBatchLowStockClick ::
  "Product list \<Rightarrow> TableState \<Rightarrow> Product list \<times> TableState" where
  "handleBatchLowStockClick products st =
    (handleBatchLowStock (selectedIds st) products, clearSelection st)"

subsection \<open>CSV export\<close>

text \<open>\<open>Array.prototype.join\<close> on an array of strings.\<close>

fun join :: "string \<Rightarrow> string list \<Rightarrow> string" where
  "join sep [] = []"
| "join sep [x] = x"
| "join sep (x # y # ys) = x @ sep @ join sep (y # ys)"

text \<open>
  The global replacement applied to the name and to the description: every double quote
  (character 0x22) becomes two.
\<close>

definition replace_quotes :: "string \<Rightarrow> string" where
  "replace_quotes s = concat (map (\<lambda>c. if c = CHR 0x22 then [CHR 0x22, CHR 0x22] else [c]) s)"

definition headers :: "string list" where
  "headers = [''ID'', ''Name'', ''SKU'', ''Category'', ''Price'', ''Quantity'',
              ''Description'', ''Last Updated'']"

text \<open>
  What the export hands to the browser: the text and type of the \<open>Blob\<close> and the
  \<open>download\<close> attribute of the link that is clicked.
\<close>

record Download =
  blob_content :: string
  blob_type :: string
  download_name :: string

text \<open>
  \<open>handleExportCSV\<close>. \<open>None\<close> is the early \<open>return\<close>: no blob, no link, no click.
  Three values come from the runtime and are parameters: \<open>numStr\<close>, the conversion of
  a number to a string that \<open>join\<close> applies to \<open>p.price\<close> and \<open>p.quantity\<close>; \<open>lower\<close>,
  the case mapping behind the filtered view; and \<open>now\<close>, the value of
  \<open>new Date().toISOString()\<close>, whose part before the first \<open>T\<close> goes into the file
  name.
\<close>

definition handleExportCSV ::
  "(rat \<Rightarrow> string) \<Rightarrow> (string \<Rightarrow> string) \<Rightarrow> string \<Rightarrow> Product list \<Rightarrow> TableState \<Rightarrow>
   Download option" where
  "handleExportCSV numStr lower now products st =
    (let fp = filteredProducts lower st products in
     if length fp = 0 then None
     else
       let csvContent =
             join [CHR 0x0A]
               (join '','' headers #
                map (\<lambda>p. join '',''
                      [ product_id p,
                        [CHR 0x22] @ replace_quotes (name p) @ [CHR 0x22],
                        sku p,
                        category_value (category p),
                        numStr (price p),
                        numStr (quantity p),
                        [CHR 0x22] @ replace_quotes (description p) @ [CHR 0x22],
                        lastUpdated p ]) fp)
       in Some \<lparr> blob_content = csvContent,
                  blob_type = ''text/csv;charset=utf-8;'',
                  download_name =
                    ''lumina_inventory_export_'' @ takeWhile (\<lambda>c. c \<noteq> CHR ''T'') now @ ''.csv'' \<rparr>)"

section \<open>The export format in the words of the specification\<close>

text \<open>
  A text field is wrapped in double quotes, with every double quote inside it doubled.
\<close>

primrec double_quotes :: "string \<Rightarrow> string" where
  "double_quotes [] = []"
| "double_quotes (c # cs) =
    (if c = CHR 0x22 then CHR 0x22 # CHR 0x22 # double_quotes cs else c # double_quotes cs)"

definition quoted_field :: "string \<Rightarrow> string" where
  "quoted_field s = CHR 0x22 # double_quotes s @ [CHR 0x22]"

definition spec_header :: string where
  "spec_header = ''ID,Name,SKU,Category,Price,Quantity,Description,Last Updated''"

text \<open>The row with all three of name, SKU and description quoted.\<close>

definition spec_row_sku_quoted :: "(rat \<Rightarrow> string) \<Rightarrow> Product \<Rightarrow> string" where
  "spec_row_sku_quoted numStr p =
    product_id p @ '','' @ quoted_field (name p) @ '','' @ quoted_field (sku p) @ '','' @
    category_value (category p) @ '','' @ numStr (price p) @ '','' @ numStr (quantity p) @
    '','' @ quoted_field (description p) @ '','' @ lastUpdated p"

definition spec_csv :: "(Product \<Rightarrow> string) \<Rightarrow> Product list \<Rightarrow> string" where
  "spec_csv row ps = spec_header @ concat (map (\<lambda>p. CHR 0x0A # row p) ps)"

section \<open>Sample data\<close>

definition sample_catalog :: "Product list" where
  "sample_catalog =
    INITIAL_PRODUCTS ''2024-05-01T08:00:00.000Z'' ''2024-05-01T08:00:00.000Z''
      ''2024-05-01T08:00:00.000Z'' ''2024-05-01T08:00:00.001Z'' ''2024-05-01T08:00:00.001Z''"

text \<open>
  Instances of the runtime parameters for the examples. \<open>asciiLower\<close> is the case
  mapping on strings of ASCII characters (the letters A to Z go to a to z), and
  \<open>exact_arithmetic\<close> is the arithmetic of \<open>rat\<close>, which is that of the doubles as long
  as no result is rounded.
\<close>

definition toLowerChar :: "char \<Rightarrow> char" where
  "toLowerChar c =
    (let n = (of_char c :: nat) in if 65 \<le> n \<and> n \<le> 90 then char_of (n + 32) else c)"

definition asciiLower :: "string \<Rightarrow> string" where
  "asciiLower s = map toLowerChar s"

definition exact_arithmetic :: "rat Arithmetic" where
  "exact_arithmetic = \<lparr> number_zero = 0, number_add = (+), number_mul = (*) \<rparr>"

text \<open>
  A rendering of numbers for the examples: on an integer it is the decimal numeral with
  a minus sign for a negative one, as \<open>Number.prototype.toString\<close> gives it; the
  examples use it on integers only (elsewhere it renders the integer part).
\<close>

fun showNat :: "nat \<Rightarrow> string" where
  "showNat n =
    (if n < 10 then [''0123456789'' ! n]
     else showNat (n div 10) @ [''0123456789'' ! (n mod 10)])"

declare showNat.simps [simp del]

definition integerToString :: "rat \<Rightarrow> string" where
  "integerToString r =
    (let i = \<lfloor>r\<rfloor> in if i < 0 then ''-'' @ showNat (nat (- i)) else showNat (nat i))"

text \<open>A catalog with a record that is out of stock.\<close>

definition catalog_with_zero :: "Product list" where
  "catalog_with_zero =
    [ \<lparr> product_id = ''1'', name = ''Ergo Chair Ultra'', sku = ''FUR-001'',
        category = FURNITURE, price = 1539272298421289 / 4398046511104, quantity = 15,
        description = ''High-end ergonomic office chair with lumbar support.'',
        lastUpdated = ''2024-05-01T08:00:00.000Z'', history = None \<rparr>,
      \<lparr> product_id = ''2'', name = ''Wireless Mech Keyboard'', sku = ''ELE-045'',
        category = ELECTRONICS, price = 259 / 2, quantity = 0,
        description = ''Mechanical keyboard with RGB and brown switches.'',
        lastUpdated = ''2024-05-01T08:00:00.000Z'', history = None \<rparr>,
      \<lparr> product_id = ''3'', name = ''Standing Desk Frame'', sku = ''FUR-022'',
        category = FURNITURE, price = 299, quantity = 8,
        description = ''Dual motor electric standing desk frame.'',
        lastUpdated = ''2024-05-01T08:00:00.000Z'', history = None \<rparr> ]"

text \<open>A catalog of one record whose SKU has a comma in it.\<close>

definition comma_sku_catalog :: "Product list" where
  "comma_sku_catalog =
    [ \<lparr> product_id = ''9'', name = ''Bolt'', sku = ''A,B'',
        category = OTHER, price = 2, quantity = 7, description = ''d'',
        lastUpdated = ''2024-05-01T08:00:00.000Z'', history = None \<rparr> ]"

section \<open>Dashboard statistics\<close>

lemma lowStockItems_card:
  "lowStockItems (stats ar ps) = card {i. i < length ps \<and> quantity (ps ! i) < 10}"
  by (simp add: stats_def length_filter_conv_card)

lemma outOfStockItems_card:
  "outOfStockItems (stats ar ps) = card {i. i < length ps \<and> quantity (ps ! i) = 0}"
  by (simp add: stats_def length_filter_conv_card)

text \<open>
  The counts of \<open>stats\<close>, whatever the arithmetic: \<open>totalProducts\<close> is the number of
  records and \<open>outOfStockItems\<close> the number of positions with quantity 0; a catalog with
  the quantities 15, 4, 8, 42, 120 has two low-stock records and none out of stock.
\<close>

lemma stats_counts:
  "totalProducts (stats ar ps) = length ps \<and>
   outOfStockItems (stats ar ps) = card {i. i < length ps \<and> quantity (ps ! i) = 0} \<and>
   (map quantity ps = [15, 4, 8, 42, 120] \<longrightarrow>
      lowStockItems (stats ar ps) = 2 \<and> outOfStockItems (stats ar ps) = 0 \<and>
      totalProducts (stats ar ps) = 5)"
proof -
  have tp: "totalProducts (stats ar ps) = length ps"
    by (simp add: stats_def)
  have scen: "lowStockItems (stats ar ps) = 2 \<and> outOfStockItems (stats ar ps) = 0 \<and>
      totalProducts (stats ar ps) = 5" if q: "map quantity ps = [15, 4, 8, 42, 120]"
  proof -
    have low: "length (filter (\<lambda>p. quantity p < 10) ps) =
               length (filter (\<lambda>q. q < 10) (map quantity ps))"
      by (simp add: filter_map comp_def)
    have out: "length (filter (\<lambda>p. quantity p = 0) ps) =
               length (filter (\<lambda>q. q = 0) (map quantity ps))"
      by (simp add: filter_map comp_def)
    have len: "length ps = length (map quantity ps)"
      by simp
    show ?thesis
      unfolding stats_def using low out len by (simp add: q)
  qed
  from tp outOfStockItems_card [of ar ps] scen show ?thesis by blast
qed

lemma stats_counts_sample:
  "lowStockItems (stats ar sample_catalog) = 2 \<and>
   outOfStockItems (stats ar sample_catalog) = 0 \<and>
   totalProducts (stats ar sample_catalog) = 5"
proof -
  have q: "map quantity sample_catalog = [15, 4, 8, 42, 120]"
    by (simp add: sample_catalog_def INITIAL_PRODUCTS_def)
  from stats_counts [of ar sample_catalog, THEN conjunct2, THEN conjunct2, THEN mp, OF q]
  show ?thesis .
qed

text \<open>
  \<open>totalValue\<close> is the running sum of the runtime, record after record from the
  runtime's zero. With an arithmetic that does not round it is the sum of the products.
\<close>

lemma totalValue_Nil: "totalValue (stats ar []) = number_zero ar"
  by (simp add: stats_def)

lemma totalValue_snoc:
  "totalValue (stats ar (ps @ [p])) =
     number_add ar (totalValue (stats ar ps)) (number_mul ar (price p) (quantity p))"
  by (simp add: stats_def)

lemma foldl_add_sum_list:
  "foldl (\<lambda>acc p. acc + f p) a xs = (a :: rat) + sum_list (map f xs)"
  by (induction xs arbitrary: a) (simp_all add: add.assoc)

lemma totalValue_exact_arithmetic:
  "totalValue (stats exact_arithmetic ps) = sum_list (map (\<lambda>p. price p * quantity p) ps)"
  by (simp add: stats_def exact_arithmetic_def foldl_add_sum_list)

section \<open>The low-stock count and the low-stock filter\<close>

lemma length_filter_remove1:
  assumes "p \<in> set ps" and "P p"
  shows "length (filter P ps) = Suc (length (filter P (remove1 p ps)))"
proof -
  from assms have mem: "p \<in> set (filter P ps)" by simp
  have "filter P (remove1 p ps) = remove1 p (filter P ps)"
    by (rule filter_remove1)
  then have "length (filter P (remove1 p ps)) = length (filter P ps) - 1"
    using mem by (simp add: length_remove1)
  moreover from mem have "length (filter P ps) > 0"
    by (rule length_pos_if_in_set)
  ultimately show ?thesis by simp
qed

lemma includes_str_sublist: "includes_str s t \<longleftrightarrow> sublist t s"
  by (induction s) (simp_all add: sublist_Cons_right)

lemma includes_str_Nil: "includes_str s []"
  by (simp add: includes_str_sublist)

lemma low_stock_view:
  assumes "stockFilter st = ''Low Stock''"
  shows "filteredProducts lower st ps =
         filter (\<lambda>p. 0 < quantity p \<and> quantity p < 10)
           (filteredProducts lower (st\<lparr>stockFilter := ''All''\<rparr>) ps)"
proof -
  have "matchesSearch lower (st\<lparr>stockFilter := ''All''\<rparr>) p = matchesSearch lower st p" for p
    by (simp add: matchesSearch_def)
  moreover have "matchesCategory (st\<lparr>stockFilter := ''All''\<rparr>) p = matchesCategory st p" for p
    by (simp add: matchesCategory_def)
  moreover have "matchesStock (st\<lparr>stockFilter := ''All''\<rparr>) p" for p
    by (simp add: matchesStock_def)
  moreover from assms have "matchesStock st p = (0 < quantity p \<and> quantity p < 10)" for p
    by (simp add: matchesStock_def)
  ultimately show ?thesis
    unfolding filteredProducts_def by (auto intro: filter_cong)
qed

lemma low_stock_view_default:
  assumes "stockFilter st = ''Low Stock''" and "searchTerm st = ''''"
    and "categoryFilter st = ''All''"
  shows "filteredProducts lower st ps = filter (\<lambda>p. 0 < quantity p \<and> quantity p < 10) ps"
  using assms
  by (simp add: filteredProducts_def matchesSearch_def matchesCategory_def matchesStock_def
      toLowerCase_def includes_str_Nil)

text \<open>
  C1. The dashboard's \<open>lowStockItems\<close> is the number of positions of the snapshot whose
  record has a quantity below 10, quantity 0 included. With \<open>stockFilter\<close> at
  \<open>Low Stock\<close> the filtered view is the view of the other two filters restricted to the
  records with a quantity above 0 and below 10, and it is exactly those records of the
  snapshot when the search text is empty and the category filter is \<open>All\<close>. So for
  every snapshot and every record in it with quantity 0: the record is counted (taking
  it out of the snapshot lowers \<open>lowStockItems\<close> by one) and it is not in the filtered
  view.
\<close>

theorem low_stock_asymmetry:
  assumes "stockFilter st = ''Low Stock''"
  shows "lowStockItems (stats ar ps) = card {i. i < length ps \<and> quantity (ps ! i) < 10} \<and>
         filteredProducts lower st ps =
           filter (\<lambda>p. 0 < quantity p \<and> quantity p < 10)
             (filteredProducts lower (st\<lparr>stockFilter := ''All''\<rparr>) ps) \<and>
         (searchTerm st = '''' \<and> categoryFilter st = ''All'' \<longrightarrow>
            filteredProducts lower st ps =
              filter (\<lambda>p. 0 < quantity p \<and> quantity p < 10) ps) \<and>
         (\<forall>p \<in> set ps. quantity p = 0 \<longrightarrow>
            lowStockItems (stats ar ps) = Suc (lowStockItems (stats ar (remove1 p ps))) \<and>
            p \<notin> set (filteredProducts lower st ps))"
proof (intro conjI impI ballI)
  show "lowStockItems (stats ar ps) = card {i. i < length ps \<and> quantity (ps ! i) < 10}"
    by (rule lowStockItems_card)
next
  show "filteredProducts lower st ps =
           filter (\<lambda>p. 0 < quantity p \<and> quantity p < 10)
             (filteredProducts lower (st\<lparr>stockFilter := ''All''\<rparr>) ps)"
    by (rule low_stock_view [OF assms])
next
  assume "searchTerm st = '''' \<and> categoryFilter st = ''All''"
  with assms show "filteredProducts lower st ps =
      filter (\<lambda>p. 0 < quantity p \<and> quantity p < 10) ps"
    by (simp add: low_stock_view_default)
next
  fix p assume p: "p \<in> set ps" and z: "quantity p = 0"
  from z have "quantity p < 10" by simp
  with p show "lowStockItems (stats ar ps) = Suc (lowStockItems (stats ar (remove1 p ps)))"
    unfolding stats_def by (simp add: length_filter_remove1 [where P = "\<lambda>p. quantity p < 10"])
next
  fix p assume "p \<in> set ps" and z: "quantity p = 0"
  from z assms have "\<not> matchesStock st p"
    by (simp add: matchesStock_def)
  then show "p \<notin> set (filteredProducts lower st ps)"
    by (simp add: filteredProducts_def)
qed

theorem low_stock_asymmetry_witness:
  "stockFilter (initialTableState\<lparr>stockFilter := ''Low Stock''\<rparr>) = ''Low Stock'' \<and>
   catalog_with_zero ! 1 \<in> set catalog_with_zero \<and>
   quantity (catalog_with_zero ! 1) = 0 \<and>
   lowStockItems (stats exact_arithmetic catalog_with_zero) =
     Suc (lowStockItems (stats exact_arithmetic
            (remove1 (catalog_with_zero ! 1) catalog_with_zero))) \<and>
   catalog_with_zero ! 1 \<notin>
     set (filteredProducts asciiLower (initialTableState\<lparr>stockFilter := ''Low Stock''\<rparr>)
            catalog_with_zero) \<and>
   filteredProducts asciiLower (initialTableState\<lparr>stockFilter := ''Low Stock''\<rparr>)
     catalog_with_zero = [catalog_with_zero ! 2]"
proof -
  let ?st = "initialTableState\<lparr>stockFilter := ''Low Stock''\<rparr>"
  have h: "stockFilter ?st = ''Low Stock''"
    by simp
  have d: "searchTerm ?st = '''' \<and> categoryFilter ?st = ''All''"
    by (simp add: initialTableState_def)
  have h1: "catalog_with_zero ! 1 \<in> set catalog_with_zero"
    by (simp add: catalog_with_zero_def)
  have h2: "quantity (catalog_with_zero ! 1) = 0"
    by (simp add: catalog_with_zero_def)
  note t = low_stock_asymmetry [OF h, of exact_arithmetic catalog_with_zero asciiLower]
  from t h1 h2 have c: "lowStockItems (stats exact_arithmetic catalog_with_zero) =
     Suc (lowStockItems (stats exact_arithmetic
            (remove1 (catalog_with_zero ! 1) catalog_with_zero))) \<and>
     catalog_with_zero ! 1 \<notin> set (filteredProducts asciiLower ?st catalog_with_zero)"
    by blast
  from t d have "filteredProducts asciiLower ?st catalog_with_zero =
      filter (\<lambda>p. 0 < quantity p \<and> quantity p < 10) catalog_with_zero"
    by blast
  also have "\<dots> = [catalog_with_zero ! 2]"
    by (simp add: catalog_with_zero_def)
  finally have v: "filteredProducts asciiLower ?st catalog_with_zero = [catalog_with_zero ! 2]" .
  from h h1 h2 c v show ?thesis by blast
qed

section \<open>Selection\<close>

lemma set_foldl_set_delete:
  "set (foldl (\<lambda>s p. set_delete s (product_id p)) sel fp) = set sel - product_id ` set fp"
  by (induction fp arbitrary: sel) (auto simp: set_delete_def)

lemma set_foldl_set_add:
  "set (foldl (\<lambda>s p. set_add s (product_id p)) sel fp) = set sel \<union> product_id ` set fp"
  by (induction fp arbitrary: sel) (auto simp: set_add_def)

lemma distinct_foldl_set_delete:
  "distinct sel \<Longrightarrow> distinct (foldl (\<lambda>s p. set_delete s (product_id p)) sel fp)"
  by (induction fp arbitrary: sel) (simp_all add: set_delete_def)

lemma distinct_foldl_set_add:
  "distinct sel \<Longrightarrow> distinct (foldl (\<lambda>s p. set_add s (product_id p)) sel fp)"
  by (induction fp arbitrary: sel) (simp_all add: set_add_def)

lemma all_selected_iff:
  "list_all (\<lambda>p. set_has sel (product_id p)) fp \<longleftrightarrow> product_id ` set fp \<subseteq> set sel"
  by (auto simp: list_all_iff set_has_def)

text \<open>
  C5. \<open>handleSelectAll\<close> on a non-empty filtered view: when every id of the view is
  selected, the selection afterwards is the old one without the ids of the view (ids
  outside the view stay); otherwise it is the old one united with the ids of the view.
  The selection stays free of repetitions and no other part of the state changes. The
  example of the witness: a view of three ids, two of them selected, and one selected id
  outside the view, give four selected ids.
\<close>

theorem handleSelectAll_tristate:
  assumes "filteredProducts lower st ps \<noteq> []"
  shows "set (selectedIds (handleSelectAll lower ps st)) =
           (if product_id ` set (filteredProducts lower st ps) \<subseteq> set (selectedIds st)
            then set (selectedIds st) - product_id ` set (filteredProducts lower st ps)
            else set (selectedIds st) \<union> product_id ` set (filteredProducts lower st ps)) \<and>
         (distinct (selectedIds st) \<longrightarrow> distinct (selectedIds (handleSelectAll lower ps st))) \<and>
         handleSelectAll lower ps st = st\<lparr>selectedIds := selectedIds (handleSelectAll lower ps st)\<rparr>"
proof (cases "product_id ` set (filteredProducts lower st ps) \<subseteq> set (selectedIds st)")
  case True
  with assms have "selectedIds (handleSelectAll lower ps st) =
      foldl (\<lambda>s p. set_delete s (product_id p)) (selectedIds st) (filteredProducts lower st ps)"
    by (simp add: handleSelectAll_def Let_def all_selected_iff)
  with True show ?thesis
    by (simp add: set_foldl_set_delete distinct_foldl_set_delete handleSelectAll_def Let_def)
next
  case False
  then have "selectedIds (handleSelectAll lower ps st) =
      foldl (\<lambda>s p. set_add s (product_id p)) (selectedIds st) (filteredProducts lower st ps)"
    by (simp add: handleSelectAll_def Let_def all_selected_iff)
  with False show ?thesis
    by (simp add: set_foldl_set_add distinct_foldl_set_add handleSelectAll_def Let_def)
qed

lemma filteredProducts_in_stock_sample:
  "filteredProducts lower
     (initialTableState\<lparr>stockFilter := ''In Stock'', selectedIds := [''1'', ''4'', ''2'']\<rparr>)
     sample_catalog
   = [sample_catalog ! 0, sample_catalog ! 3, sample_catalog ! 4]"
  by (simp add: filteredProducts_def matchesSearch_def matchesCategory_def matchesStock_def
      toLowerCase_def includes_str_Nil initialTableState_def sample_catalog_def
      INITIAL_PRODUCTS_def)

theorem handleSelectAll_tristate_witness:
  "filteredProducts asciiLower
     (initialTableState\<lparr>stockFilter := ''In Stock'', selectedIds := [''1'', ''4'', ''2'']\<rparr>)
     sample_catalog \<noteq> [] \<and>
   set (selectedIds (handleSelectAll asciiLower sample_catalog
     (initialTableState\<lparr>stockFilter := ''In Stock'', selectedIds := [''1'', ''4'', ''2'']\<rparr>)))
    = {''1'', ''4'', ''5'', ''2''} \<and>
   card (set (selectedIds (handleSelectAll asciiLower sample_catalog
     (initialTableState\<lparr>stockFilter := ''In Stock'', selectedIds := [''1'', ''4'', ''2'']\<rparr>))))
    = 4"
proof -
  let ?st = "initialTableState\<lparr>stockFilter := ''In Stock'', selectedIds := [''1'', ''4'', ''2'']\<rparr>"
  have v: "filteredProducts asciiLower ?st sample_catalog
           = [sample_catalog ! 0, sample_catalog ! 3, sample_catalog ! 4]"
    by (rule filteredProducts_in_stock_sample)
  have ids: "product_id ` set (filteredProducts asciiLower ?st sample_catalog) = {''1'', ''4'', ''5''}"
    unfolding v by (simp add: sample_catalog_def INITIAL_PRODUCTS_def)
  have ne: "filteredProducts asciiLower ?st sample_catalog \<noteq> []"
    unfolding v by simp
  have sel: "set (selectedIds ?st) = {''1'', ''4'', ''2''}"
    by simp
  have r: "set (selectedIds (handleSelectAll asciiLower sample_catalog ?st)) = {''1'', ''4'', ''5'', ''2''}"
    using handleSelectAll_tristate [OF ne, THEN conjunct1] unfolding ids sel by auto
  have "card {''1'', ''4'', ''5'', ''2''} = 4"
    by simp
  with r ne show ?thesis by simp
qed

text \<open>
  C8. With an empty filtered view \<open>handleSelectAll\<close> changes nothing: the state, and so
  the selection, is as before.
\<close>

theorem handleSelectAll_empty_view:
  assumes "filteredProducts lower st ps = []"
  shows "handleSelectAll lower ps st = st"
  using assms by (simp add: handleSelectAll_def Let_def)

lemma filteredProducts_out_of_stock_sample:
  "filteredProducts lower
     (initialTableState\<lparr>stockFilter := ''Out of Stock'', selectedIds := [''1'', ''4'']\<rparr>)
     sample_catalog = []"
  by (simp add: filteredProducts_def matchesSearch_def matchesCategory_def matchesStock_def
      toLowerCase_def includes_str_Nil initialTableState_def sample_catalog_def
      INITIAL_PRODUCTS_def)

theorem handleSelectAll_empty_view_witness:
  "filteredProducts asciiLower
     (initialTableState\<lparr>stockFilter := ''Out of Stock'', selectedIds := [''1'', ''4'']\<rparr>)
     sample_catalog = [] \<and>
   selectedIds (handleSelectAll asciiLower sample_catalog
     (initialTableState\<lparr>stockFilter := ''Out of Stock'', selectedIds := [''1'', ''4'']\<rparr>))
    = [''1'', ''4'']"
proof -
  let ?st = "initialTableState\<lparr>stockFilter := ''Out of Stock'', selectedIds := [''1'', ''4'']\<rparr>"
  have e: "filteredProducts asciiLower ?st sample_catalog = []"
    by (rule filteredProducts_out_of_stock_sample)
  from handleSelectAll_empty_view [OF e] e show ?thesis by simp
qed

text \<open>
  C10. After the batch delete button and after the batch mark-as-low-stock button the
  selection is empty, whatever was selected, whether or not the selected ids are in the
  catalog, and whether or not the deletion was confirmed.
\<close>

theorem batch_actions_clear_selection:
  "selectedIds (snd (handleBatchDeleteClick confirmed ps st)) = [] \<and>
   selectedIds (snd (handleBatchLowStockClick ps st)) = []"
  by (simp add: handleBatchDeleteClick_def handleBatchLowStockClick_def clearSelection_def)

theorem batch_actions_clear_selection_witness:
  "set (selectedIds (snd (handleBatchDeleteClick False sample_catalog
          (initialTableState\<lparr>selectedIds := [''1'', ''99'']\<rparr>)))) = {} \<and>
   set (selectedIds (snd (handleBatchLowStockClick sample_catalog
          (initialTableState\<lparr>selectedIds := [''1'', ''99'']\<rparr>)))) = {}"
  using batch_actions_clear_selection [of False sample_catalog
      "initialTableState\<lparr>selectedIds := [''1'', ''99'']\<rparr>"]
  by simp

section \<open>The filtered view\<close>

text \<open>
  C6. The filtered view keeps, in snapshot order, exactly the records that satisfy the
  search predicate (the lower-cased search text occurs in the lower-cased name or SKU),
  the category predicate and the stock predicate together. It is a subsequence of the
  snapshot, it depends on the state only through the three filter fields, and with the
  default filter (empty search text, \<open>All\<close>, \<open>All\<close>) it is the snapshot itself.
\<close>

theorem filteredProducts_spec:
  "filteredProducts lower st ps =
     filter (\<lambda>p.
        (sublist (toLowerCase lower (searchTerm st)) (toLowerCase lower (name p)) \<or>
         sublist (toLowerCase lower (searchTerm st)) (toLowerCase lower (sku p))) \<and>
        (categoryFilter st = ''All'' \<or> category_value (category p) = categoryFilter st) \<and>
        (stockFilter st = ''In Stock'' \<longrightarrow> quantity p \<ge> 10) \<and>
        (stockFilter st = ''Low Stock'' \<longrightarrow> 0 < quantity p \<and> quantity p < 10) \<and>
        (stockFilter st = ''Out of Stock'' \<longrightarrow> quantity p = 0)) ps \<and>
   subseq (filteredProducts lower st ps) ps \<and>
   (searchTerm st' = searchTerm st \<and> categoryFilter st' = categoryFilter st \<and>
    stockFilter st' = stockFilter st \<longrightarrow> filteredProducts lower st' ps = filteredProducts lower st ps) \<and>
   (searchTerm st = '''' \<and> categoryFilter st = ''All'' \<and> stockFilter st = ''All'' \<longrightarrow>
    filteredProducts lower st ps = ps)"
proof (intro conjI impI)
  show "filteredProducts lower st ps =
     filter (\<lambda>p.
        (sublist (toLowerCase lower (searchTerm st)) (toLowerCase lower (name p)) \<or>
         sublist (toLowerCase lower (searchTerm st)) (toLowerCase lower (sku p))) \<and>
        (categoryFilter st = ''All'' \<or> category_value (category p) = categoryFilter st) \<and>
        (stockFilter st = ''In Stock'' \<longrightarrow> quantity p \<ge> 10) \<and>
        (stockFilter st = ''Low Stock'' \<longrightarrow> 0 < quantity p \<and> quantity p < 10) \<and>
        (stockFilter st = ''Out of Stock'' \<longrightarrow> quantity p = 0)) ps"
    unfolding filteredProducts_def
    by (rule filter_cong [OF refl])
       (simp add: matchesSearch_def matchesCategory_def matchesStock_def includes_str_sublist)
next
  show "subseq (filteredProducts lower st ps) ps"
    by (simp add: filteredProducts_def)
next
  assume "searchTerm st' = searchTerm st \<and> categoryFilter st' = categoryFilter st \<and>
    stockFilter st' = stockFilter st"
  then show "filteredProducts lower st' ps = filteredProducts lower st ps"
    by (simp add: filteredProducts_def matchesSearch_def matchesCategory_def matchesStock_def)
next
  assume "searchTerm st = '''' \<and> categoryFilter st = ''All'' \<and> stockFilter st = ''All''"
  then show "filteredProducts lower st ps = ps"
    by (simp add: filteredProducts_def matchesSearch_def matchesCategory_def matchesStock_def
        toLowerCase_def includes_str_sublist)
qed

theorem filteredProducts_spec_witness:
  "searchTerm initialTableState = '''' \<and> categoryFilter initialTableState = ''All'' \<and>
   stockFilter initialTableState = ''All'' \<and>
   filteredProducts asciiLower initialTableState sample_catalog = sample_catalog"
proof -
  have d: "searchTerm initialTableState = '''' \<and> categoryFilter initialTableState = ''All'' \<and>
           stockFilter initialTableState = ''All''"
    by (simp add: initialTableState_def)
  from filteredProducts_spec [where lower = asciiLower and st = initialTableState
      and ps = sample_catalog and st' = initialTableState,
      THEN conjunct2, THEN conjunct2, THEN conjunct2, THEN mp, OF d] d
  show ?thesis by simp
qed

section \<open>Deleting\<close>

text \<open>
  C7. Deleting tolerates absent ids. Deleting an id twice gives the catalog that deleting
  it once gives; deleting an id that no record has leaves the catalog as it is; a
  confirmed batch delete keeps exactly the records whose id is not in the id list, in
  order, and ids of the list that no record has make no difference. The handlers are
  total functions with no error value.
\<close>

theorem delete_tolerates_absent_ids:
  "handleDeleteProduct c i (handleDeleteProduct c i ps) = handleDeleteProduct c i ps \<and>
   (i \<notin> product_id ` set ps \<longrightarrow> handleDeleteProduct c i ps = ps) \<and>
   set (handleBatchDelete True ids ps) = {p \<in> set ps. product_id p \<notin> set ids} \<and>
   subseq (handleBatchDelete c ids ps) ps \<and>
   handleBatchDelete c ids ps =
     handleBatchDelete c (filter (\<lambda>j. j \<in> product_id ` set ps) ids) ps"
proof (intro conjI impI)
  show "handleDeleteProduct c i (handleDeleteProduct c i ps) = handleDeleteProduct c i ps"
    by (simp add: handleDeleteProduct_def)
next
  assume "i \<notin> product_id ` set ps"
  then have "filter (\<lambda>p. product_id p \<noteq> i) ps = ps"
    by (intro filter_True) auto
  then show "handleDeleteProduct c i ps = ps"
    by (simp add: handleDeleteProduct_def)
next
  show "set (handleBatchDelete True ids ps) = {p \<in> set ps. product_id p \<notin> set ids}"
    by (auto simp: handleBatchDelete_def)
next
  show "subseq (handleBatchDelete c ids ps) ps"
    by (simp add: handleBatchDelete_def)
next
  have "filter (\<lambda>p. \<not> product_id p \<in> set ids) ps =
        filter (\<lambda>p. \<not> product_id p \<in> set (filter (\<lambda>j. j \<in> product_id ` set ps) ids)) ps"
    by (rule filter_cong [OF refl]) auto
  then show "handleBatchDelete c ids ps =
     handleBatchDelete c (filter (\<lambda>j. j \<in> product_id ` set ps) ids) ps"
    by (simp add: handleBatchDelete_def)
qed

theorem delete_tolerates_absent_ids_witness:
  "''99'' \<notin> product_id ` set sample_catalog \<and>
   handleDeleteProduct True ''99'' sample_catalog = sample_catalog \<and>
   handleBatchDelete True [''2'', ''99'', ''4''] sample_catalog =
     handleBatchDelete True [''2'', ''4''] sample_catalog"
proof -
  have a: "''99'' \<notin> product_id ` set sample_catalog"
    by (simp add: sample_catalog_def INITIAL_PRODUCTS_def)
  have f: "filter (\<lambda>j. j \<in> product_id ` set sample_catalog) [''2'', ''99'', ''4''] = [''2'', ''4'']"
    by (simp add: sample_catalog_def INITIAL_PRODUCTS_def)
  note t = delete_tolerates_absent_ids [of True "''99''" sample_catalog "[''2'', ''99'', ''4'']"]
  from t have "handleDeleteProduct True ''99'' sample_catalog = sample_catalog"
    using a by blast
  moreover from t have "handleBatchDelete True [''2'', ''99'', ''4''] sample_catalog =
     handleBatchDelete True [''2'', ''4''] sample_catalog"
    unfolding f by blast
  ultimately show ?thesis using a by simp
qed

section \<open>Export\<close>

text \<open>
  C9. With an empty filtered view the export produces nothing: \<open>handleExportCSV\<close>
  returns before it builds any text, so there is no download, not even of a header.
\<close>

theorem export_nothing_for_empty_view:
  assumes "filteredProducts lower st ps = []"
  shows "handleExportCSV numStr lower now ps st = None"
  using assms by (simp add: handleExportCSV_def)

theorem export_nothing_for_empty_view_witness:
  "filteredProducts asciiLower (initialTableState\<lparr>stockFilter := ''Out of Stock'', selectedIds := [''1'', ''4'']\<rparr>)
     sample_catalog = [] \<and>
   handleExportCSV integerToString asciiLower ''2024-05-03T10:00:00.000Z'' sample_catalog
     (initialTableState\<lparr>stockFilter := ''Out of Stock'', selectedIds := [''1'', ''4'']\<rparr>) = None"
proof -
  let ?st = "initialTableState\<lparr>stockFilter := ''Out of Stock'', selectedIds := [''1'', ''4'']\<rparr>"
  have e: "filteredProducts asciiLower ?st sample_catalog = []"
    by (rule filteredProducts_out_of_stock_sample)
  from export_nothing_for_empty_view [OF e] e show ?thesis by simp
qed

lemma export_something_for_nonempty_view:
  "filteredProducts lower st ps \<noteq> [] \<Longrightarrow> handleExportCSV numStr lower now ps st \<noteq> None"
  by (simp add: handleExportCSV_def Let_def)

text \<open>
  C3. The export of the one-record catalog whose SKU is \<open>A,B\<close>: the view is not empty,
  the text is the header row and one row, the name and the description are wrapped in
  double quotes, and the SKU is written as it is, so the row has nine fields under a
  header of eight. The text with the SKU quoted as well, as the name and the description
  are, is a different one.
\<close>

theorem export_sku_written_bare:
  "filteredProducts asciiLower initialTableState comma_sku_catalog \<noteq> [] \<and>
   map_option blob_content
     (handleExportCSV integerToString asciiLower ''2024-05-03T10:00:00.000Z''
        comma_sku_catalog initialTableState) =
   Some (''ID,Name,SKU,Category,Price,Quantity,Description,Last Updated'' @ [CHR 0x0A] @
         ''9,'' @ [CHR 0x22] @ ''Bolt'' @ [CHR 0x22] @ '',A,B,Other,2,7,'' @
         [CHR 0x22] @ ''d'' @ [CHR 0x22] @ '',2024-05-01T08:00:00.000Z'') \<and>
   spec_csv (spec_row_sku_quoted integerToString) comma_sku_catalog =
         ''ID,Name,SKU,Category,Price,Quantity,Description,Last Updated'' @ [CHR 0x0A] @
         ''9,'' @ [CHR 0x22] @ ''Bolt'' @ [CHR 0x22] @ '','' @
         [CHR 0x22] @ ''A,B'' @ [CHR 0x22] @ '',Other,2,7,'' @
         [CHR 0x22] @ ''d'' @ [CHR 0x22] @ '',2024-05-01T08:00:00.000Z'' \<and>
   map_option blob_content
     (handleExportCSV integerToString asciiLower ''2024-05-03T10:00:00.000Z''
        comma_sku_catalog initialTableState) \<noteq>
   Some (spec_csv (spec_row_sku_quoted integerToString) comma_sku_catalog)"
proof -
  have view: "filteredProducts asciiLower initialTableState comma_sku_catalog = comma_sku_catalog"
    by (simp add: filteredProducts_def matchesSearch_def matchesCategory_def matchesStock_def
        toLowerCase_def initialTableState_def includes_str_Nil)
  have ne: "filteredProducts asciiLower initialTableState comma_sku_catalog \<noteq> []"
    unfolding view by (simp add: comma_sku_catalog_def)
  have n: "integerToString 2 = ''2''" "integerToString 7 = ''7''"
    by (simp_all add: integerToString_def showNat.simps)
  have c: "map_option blob_content
     (handleExportCSV integerToString asciiLower ''2024-05-03T10:00:00.000Z''
        comma_sku_catalog initialTableState) =
   Some (''ID,Name,SKU,Category,Price,Quantity,Description,Last Updated'' @ [CHR 0x0A] @
         ''9,'' @ [CHR 0x22] @ ''Bolt'' @ [CHR 0x22] @ '',A,B,Other,2,7,'' @
         [CHR 0x22] @ ''d'' @ [CHR 0x22] @ '',2024-05-01T08:00:00.000Z'')"
    unfolding handleExportCSV_def Let_def view
    by (simp add: comma_sku_catalog_def headers_def replace_quotes_def n)
  have q: "spec_csv (spec_row_sku_quoted integerToString) comma_sku_catalog =
         ''ID,Name,SKU,Category,Price,Quantity,Description,Last Updated'' @ [CHR 0x0A] @
         ''9,'' @ [CHR 0x22] @ ''Bolt'' @ [CHR 0x22] @ '','' @
         [CHR 0x22] @ ''A,B'' @ [CHR 0x22] @ '',Other,2,7,'' @
         [CHR 0x22] @ ''d'' @ [CHR 0x22] @ '',2024-05-01T08:00:00.000Z''"
    by (simp add: spec_csv_def spec_row_sku_quoted_def spec_header_def quoted_field_def
        comma_sku_catalog_def n)
  have d: "map_option blob_content
     (handleExportCSV integerToString asciiLower ''2024-05-03T10:00:00.000Z''
        comma_sku_catalog initialTableState) \<noteq>
     Some (spec_csv (spec_row_sku_quoted integerToString) comma_sku_catalog)"
    unfolding c q by simp
  from ne c q d show ?thesis by (intro conjI)
qed

text \<open>
  C2. \<open>handleBatchLowStock\<close> on the mock catalog with the id list \<open>['1']\<close>: the first
  record gets quantity 5 and nothing else of it changes, so its \<open>lastUpdated\<close> is still
  the timestamp the catalog was created with. The handler reads no clock.
\<close>

theorem batch_low_stock_keeps_lastUpdated:
  "handleBatchLowStock [''1''] sample_catalog ! 0 = (sample_catalog ! 0)\<lparr>quantity := 5\<rparr> \<and>
   quantity (sample_catalog ! 0) = 15 \<and>
   lastUpdated (handleBatchLowStock [''1''] sample_catalog ! 0) = ''2024-05-01T08:00:00.000Z'' \<and>
   lastUpdated (sample_catalog ! 0) = ''2024-05-01T08:00:00.000Z''"
  by (simp add: handleBatchLowStock_def sample_catalog_def INITIAL_PRODUCTS_def)

lemma handleBatchLowStock_lastUpdated:
  "map lastUpdated (handleBatchLowStock ids ps) = map lastUpdated ps"
  by (simp add: handleBatchLowStock_def)

end
